theory Spec2Isabelle
  imports Complex_Main "HOL-Library.AList"
begin

section \<open>Python values as the daemons see them\<close>

text \<open>
  Both daemons (\<^verbatim>\<open>daemon/tracker.py\<close>, \<^verbatim>\<open>daemon/peer.py\<close>) work on what
  \<^verbatim>\<open>json.loads\<close> returns. A \<open>dict\<close> keeps its keys in insertion order, so it is an
  association list read with \<open>map_of\<close> and written with \<open>AList.update\<close> (replace in
  place, else append). \<open>JNull\<close> is Python's \<open>None\<close>. A float is a rational: the
  arithmetic on time stamps is exact in the model (no rounding), and the parser's
  \<open>NaN\<close> and infinities are left out.
\<close>

datatype json =
    JNull
  | JBool bool
  | JInt int
  | JFloat rat
  | JStr string
  | JArr "json list"
  | JObj "(string \<times> json) list"

type_synonym pydict = "(string \<times> json) list"

text \<open>
  The body of a request after \<^verbatim>\<open>json.loads(content or '{}')\<close>: \<open>Malformed content detail\<close>
  when the decoder raises (\<open>detail\<close> is \<open>str(e)\<close>), \<open>Parsed v\<close> otherwise.
\<close>

datatype payload = Malformed string string | Parsed json

datatype pyexn = KeyError string | TypeError | AttributeError | ValueError

text \<open>One outbound connection: host, port and the JSON document that was sent.\<close>

type_synonym contact = "json \<times> int \<times> json"

text \<open>
  What the model takes from the Python runtime and the network and does not define:
  \<^item> \<open>py_repr\<close>: \<open>str(x)\<close> of a float, a list or a dict;
  \<^item> \<open>int_conv\<close>: \<open>int(x)\<close> of a string, \<open>None\<close>, a list or a dict (\<open>Inl\<close>: it raises);
  \<^item> \<open>exn_text\<close>: \<open>str(e)\<close> of an exception;
  \<^item> \<open>set_iter\<close>: the order in which a \<open>set\<close> of strings is iterated;
  \<^item> \<open>net\<close>: the outcome of connect/send/receive to a host and port, given the
    connections made so far: \<open>None\<close> when it succeeds, \<open>Some msg\<close> when it raises
    (\<open>msg\<close> is \<open>str(e)\<close>).
\<close>

record pyenv =
  py_repr :: "json \<Rightarrow> string"
  int_conv :: "json \<Rightarrow> pyexn + int"
  exn_text :: "pyexn \<Rightarrow> string"
  set_iter :: "string set \<Rightarrow> string list"
  net :: "contact list \<Rightarrow> contact \<Rightarrow> string option"

record response =
  code :: nat
  body :: json

fun truthy :: "json \<Rightarrow> bool" where
  "truthy JNull = False"
| "truthy (JBool b) = b"
| "truthy (JInt i) = (i \<noteq> 0)"
| "truthy (JFloat q) = (q \<noteq> 0)"
| "truthy (JStr s) = (s \<noteq> [])"
| "truthy (JArr xs) = (xs \<noteq> [])"
| "truthy (JObj kvs) = (kvs \<noteq> [])"

definition py_or :: "json \<Rightarrow> json \<Rightarrow> json" where
  "py_or a b = (if truthy a then a else b)"

fun str_nat :: "nat \<Rightarrow> string" where
  "str_nat n =
     (if n < 10 then [''0123456789'' ! n]
      else str_nat (n div 10) @ [''0123456789'' ! (n mod 10)])"

declare str_nat.simps [simp del]

definition str_int :: "int \<Rightarrow> string" where
  "str_int i = (if i < 0 then ''-'' @ str_nat (nat (- i)) else str_nat (nat i))"

fun py_str :: "pyenv \<Rightarrow> json \<Rightarrow> string" where
  "py_str env JNull = ''None''"
| "py_str env (JBool b) = (if b then ''True'' else ''False'')"
| "py_str env (JInt i) = str_int i"
| "py_str env (JStr s) = s"
| "py_str env v = py_repr env v"

fun py_int :: "pyenv \<Rightarrow> json \<Rightarrow> pyexn + int" where
  "py_int env (JInt i) = Inr i"
| "py_int env (JBool b) = Inr (if b then 1 else 0)"
| "py_int env (JFloat q) = Inr (if 0 \<le> q then \<lfloor>q\<rfloor> else \<lceil>q\<rceil>)"
| "py_int env v = int_conv env v"

text \<open>\<open>d.get(k, default)\<close> and \<open>d[k]\<close> on a dict; \<open>v[k]\<close> on any value.\<close>

definition get_default :: "pydict \<Rightarrow> string \<Rightarrow> json \<Rightarrow> json" where
  "get_default d k dflt = (case map_of d k of None \<Rightarrow> dflt | Some v \<Rightarrow> v)"

definition getitem :: "pydict \<Rightarrow> string \<Rightarrow> pyexn + json" where
  "getitem d k = (case map_of d k of None \<Rightarrow> Inl (KeyError k) | Some v \<Rightarrow> Inr v)"

fun subscript :: "json \<Rightarrow> string \<Rightarrow> pyexn + json" where
  "subscript (JObj d) k = getitem d k"
| "subscript v k = Inl TypeError"

fun dict_get :: "json \<Rightarrow> string \<Rightarrow> pyexn + json" where
  "dict_get (JObj d) k = Inr (get_default d k JNull)"
| "dict_get v k = Inl AttributeError"

section \<open>The peer agent: \<^verbatim>\<open>daemon/peer.py\<close>\<close>

text \<open>
  \<open>messages\<close> is \<^verbatim>\<open>self.messages\<close> (the inbox), \<open>recent_keys\<close> is
  \<^verbatim>\<open>self._recent_keys\<close> (dedupe key to the time of its last acceptance).
\<close>

record peer_state =
  messages :: "json list"
  recent_keys :: "(string \<times> rat) list"

definition build_response :: "nat \<Rightarrow> json \<Rightarrow> response" where
  "build_response status obj = \<lparr>code = status, body = obj\<rparr>"

definition resp_ok :: response where
  "resp_ok = build_response 200 (JObj [(''status'', JStr ''ok'')])"

definition resp_duplicate :: response where
  "resp_duplicate = build_response 200 (JObj [(''status'', JStr ''duplicate_ignored'')])"

text \<open>
  Lines 106-116 of \<^verbatim>\<open>_handle_conn\<close>: the key is
  \<^verbatim>\<open>'|'.join((str(from_ip), str(from_port), str(channel or 'general'), str(message or raw or '')))\<close>.
\<close>

definition dedupe_key :: "pyenv \<Rightarrow> pydict \<Rightarrow> string" where
  "dedupe_key env obj =
     (let sender = get_default obj ''from'' JNull;
          from_ip = (case sender of JObj s \<Rightarrow> get_default s ''ip'' (JStr []) | _ \<Rightarrow> JStr []);
          from_port =
            (case sender of
               JObj s \<Rightarrow>
                 (case py_int env (py_or (get_default s ''port'' JNull) (JInt 0)) of
                    Inl e \<Rightarrow> 0
                  | Inr n \<Rightarrow> n)
             | _ \<Rightarrow> 0)
      in py_str env from_ip @ ''|'' @ py_str env (JInt from_port) @ ''|''
         @ py_str env (py_or (get_default obj ''channel'' JNull) (JStr ''general'')) @ ''|''
         @ py_str env (py_or (py_or (get_default obj ''message'' JNull)
                                    (get_default obj ''raw'' JNull)) (JStr [])))"

text \<open>\<^verbatim>\<open>last and (now_ts - last) < 2.0\<close>: a stored stamp of 0 is falsy.\<close>

definition is_duplicate :: "(string \<times> rat) list \<Rightarrow> string \<Rightarrow> rat \<Rightarrow> bool" where
  "is_duplicate recent key now_ts =
     (case map_of recent key of
        None \<Rightarrow> False
      | Some seen \<Rightarrow> seen \<noteq> 0 \<and> now_ts - seen < 2)"

text \<open>Lines 129-133: once more than 500 keys are held, drop those older than 5 seconds.\<close>

definition prune :: "rat \<Rightarrow> (string \<times> rat) list \<Rightarrow> (string \<times> rat) list" where
  "prune now_ts recent =
     (if length recent > 500 then filter (\<lambda>(k, t). \<not> t < now_ts - 5) recent else recent)"

text \<open>
  \<^verbatim>\<open>POST /p2p/receive\<close> (lines 96-150). \<open>loaded\<close> is the \<open>try\<close> of lines 99-102: the
  parsed body, or \<open>{'raw': content}\<close> when it does not parse. \<open>obj['ts'] = now_ts\<close> raises \<open>TypeError\<close> when the
  body parsed to something that is not a dict; the \<open>except\<close> of line 144 prints it and
  the handler still answers \<open>ok\<close> (line 147), with nothing stored.
\<close>

definition loaded :: "payload \<Rightarrow> json" where
  "loaded c = (case c of Malformed raw detail \<Rightarrow> JObj [(''raw'', JStr raw)] | Parsed v \<Rightarrow> v)"

definition receive :: "pyenv \<Rightarrow> rat \<Rightarrow> payload \<Rightarrow> peer_state \<Rightarrow> response \<times> peer_state" where
  "receive env now_ts c st =
     (case loaded c of
        JObj d \<Rightarrow>
          (let obj = AList.update ''ts'' (JFloat now_ts) d;
               key = dedupe_key env obj
           in if is_duplicate (recent_keys st) key now_ts then (resp_duplicate, st)
              else (resp_ok,
                    st\<lparr>recent_keys := prune now_ts (AList.update key now_ts (recent_keys st)),
                       messages := messages st @ [JObj obj]\<rparr>))
      | _ \<Rightarrow> (resp_ok, st))"

text \<open>\<^verbatim>\<open>GET /peer-inbox\<close> (lines 153-173): copy, clear, send the copy.\<close>

definition peer_inbox :: "peer_state \<Rightarrow> response \<times> peer_state" where
  "peer_inbox st = (build_response 200 (JArr (messages st)), st\<lparr>messages := []\<rparr>)"

text \<open>A run of deliveries of one body at the given clock readings, oldest first.\<close>

fun receive_all :: "pyenv \<Rightarrow> payload \<Rightarrow> rat list \<Rightarrow> peer_state \<Rightarrow> response list \<times> peer_state" where
  "receive_all env c [] st = ([], st)"
| "receive_all env c (t # ts) st =
     (let (r, st') = receive env t c st;
          (rs, st'') = receive_all env c ts st'
      in (r # rs, st''))"

text \<open>A run of deliveries of any bodies, each with its clock reading, oldest first.\<close>

fun deliver_all :: "pyenv \<Rightarrow> (rat \<times> payload) list \<Rightarrow> peer_state \<Rightarrow> response list \<times> peer_state" where
  "deliver_all env [] st = ([], st)"
| "deliver_all env ((t, c) # es) st =
     (let (r, st') = receive env t c st;
          (rs, st'') = deliver_all env es st'
      in (r # rs, st''))"

definition new_peer :: peer_state where
  "new_peer = \<lparr>messages = [], recent_keys = []\<rparr>"

text \<open>Every stored stamp is a clock reading after the epoch.\<close>

definition stamps_ok :: "peer_state \<Rightarrow> bool" where
  "stamps_ok st = list_all (\<lambda>(k, t). 0 < t) (recent_keys st)"

text \<open>
  \<^verbatim>\<open>Peer.broadcast\<close> (lines 259-291). \<open>peers\<close> is what \<^verbatim>\<open>get_peers_from_tracker\<close>
  returned. The list comprehension of line 264 drops the peer's own record; \<open>int\<close> is
  only evaluated when the \<open>ip\<close> matches, and an exception there leaves \<open>broadcast\<close>.
\<close>

record peer_self =
  self_ip :: string
  self_port :: int
  self_name :: string

fun select_targets :: "pyenv \<Rightarrow> string \<Rightarrow> int \<Rightarrow> pydict list \<Rightarrow> pyexn + pydict list" where
  "select_targets env my_ip my_port [] = Inr []"
| "select_targets env my_ip my_port (p # ps) =
     (if get_default p ''ip'' JNull = JStr my_ip then
        (case py_int env (get_default p ''port'' JNull) of
           Inl e \<Rightarrow> Inl e
         | Inr n \<Rightarrow>
             (case select_targets env my_ip my_port ps of
                Inl e \<Rightarrow> Inl e
              | Inr ts \<Rightarrow> Inr (if n = my_port then ts else p # ts)))
      else
        (case select_targets env my_ip my_port ps of
           Inl e \<Rightarrow> Inl e
         | Inr ts \<Rightarrow> Inr (p # ts)))"

text \<open>
  The \<open>try\<close> block of lines 275-285 for one target: \<open>True\<close> when it ran to its end.
  \<open>p['ip']\<close>, \<open>p['port']\<close> and \<open>int\<close> come before the connection; the \<open>print\<close> of
  line 285 reads \<open>p['name']\<close> after it, still inside the \<open>try\<close>.
\<close>

definition try_send :: "pyenv \<Rightarrow> json \<Rightarrow> pydict \<Rightarrow> contact list \<Rightarrow> bool \<times> contact list" where
  "try_send env b p conns =
     (case getitem p ''ip'' of
        Inl e \<Rightarrow> (False, conns)
      | Inr host \<Rightarrow>
          (case getitem p ''port'' of
             Inl e \<Rightarrow> (False, conns)
           | Inr pv \<Rightarrow>
               (case py_int env pv of
                  Inl e \<Rightarrow> (False, conns)
                | Inr n \<Rightarrow>
                    (case net env conns (host, n, b) of
                       Some msg \<Rightarrow> (False, conns @ [(host, n, b)])
                     | None \<Rightarrow>
                         (case getitem p ''name'' of
                            Inl e \<Rightarrow> (False, conns @ [(host, n, b)])
                          | Inr v \<Rightarrow> (True, conns @ [(host, n, b)]))))))"

text \<open>
  The three \<open>except\<close> clauses of lines 286-291 each print
  \<^verbatim>\<open>{p['name']} at {p['ip']}:{p['port']}\<close>: the result is the exception that the
  \<open>print\<close> itself raises, if any.
\<close>

definition report_failure :: "pydict \<Rightarrow> pyexn option" where
  "report_failure p =
     (case getitem p ''name'' of
        Inl e \<Rightarrow> Some e
      | Inr v \<Rightarrow>
          (case getitem p ''ip'' of
             Inl e \<Rightarrow> Some e
           | Inr v \<Rightarrow>
               (case getitem p ''port'' of
                  Inl e \<Rightarrow> Some e
                | Inr v \<Rightarrow> None)))"

fun send_each :: "pyenv \<Rightarrow> json \<Rightarrow> pydict list \<Rightarrow> contact list \<Rightarrow> pyexn option \<times> contact list" where
  "send_each env b [] conns = (None, conns)"
| "send_each env b (p # ps) conns =
     (let (sent, conns') = try_send env b p conns
      in if sent then send_each env b ps conns'
         else (case report_failure p of
                 Some e \<Rightarrow> (Some e, conns')
               | None \<Rightarrow> send_each env b ps conns'))"

text \<open>The result is the exception that leaves \<open>broadcast\<close> (if any) and the connections made.\<close>

definition broadcast ::
  "pyenv \<Rightarrow> peer_self \<Rightarrow> pydict list \<Rightarrow> json \<Rightarrow> json \<Rightarrow> contact list \<Rightarrow> pyexn option \<times> contact list" where
  "broadcast env self peers message channel conns =
     (case select_targets env (self_ip self) (self_port self) peers of
        Inl e \<Rightarrow> (Some e, conns)
      | Inr target_peers \<Rightarrow>
          if target_peers = [] then (None, conns)
          else send_each env
                 (JObj [(''from'', JObj [(''ip'', JStr (self_ip self)),
                                         (''port'', JInt (self_port self)),
                                         (''name'', JStr (self_name self))]),
                        (''channel'', channel), (''message'', message)])
                 target_peers conns)"

section \<open>The tracker: \<^verbatim>\<open>daemon/tracker.py\<close>\<close>

text \<open>
  \<open>PEERS\<close> maps a peer id to its record, \<open>CHANNELS\<close> a channel to its member set and
  message conns. A channel name is any hashable JSON value; Python's dict identifies keys
  that are equal as numbers (\<open>1\<close>, \<open>1.0\<close> and \<open>True\<close>), which \<open>py_hash\<close> normalises, and
  refuses a list or a dict (\<open>TypeError: unhashable type\<close>).
\<close>

datatype hkey = KNone | KNum rat | KStr string

fun py_hash :: "json \<Rightarrow> pyexn + hkey" where
  "py_hash JNull = Inr KNone"
| "py_hash (JBool b) = Inr (KNum (if b then 1 else 0))"
| "py_hash (JInt i) = Inr (KNum (of_int i))"
| "py_hash (JFloat q) = Inr (KNum q)"
| "py_hash (JStr s) = Inr (KStr s)"
| "py_hash (JArr xs) = Inl TypeError"
| "py_hash (JObj d) = Inl TypeError"

record channel =
  ch_peers :: "string set"
  ch_messages :: "json list"

record tracker =
  PEERS :: "(string \<times> pydict) list"
  CHANNELS :: "(hkey \<times> channel) list"

record request =
  meth :: string
  route :: string
  qs_channel :: "string option"
  content :: payload

definition new_tracker :: tracker where
  "new_tracker = \<lparr>PEERS = [], CHANNELS = []\<rparr>"

text \<open>\<^verbatim>\<open>_peer_id(info)\<close>: \<^verbatim>\<open>f"{info['ip']}:{info['port']}"\<close>.\<close>

definition peer_id :: "pyenv \<Rightarrow> json \<Rightarrow> pyexn + string" where
  "peer_id env info =
     (case subscript info ''ip'' of
        Inl e \<Rightarrow> Inl e
      | Inr a \<Rightarrow>
          (case subscript info ''port'' of
             Inl e \<Rightarrow> Inl e
           | Inr b \<Rightarrow> Inr (py_str env a @ '':'' @ py_str env b)))"

text \<open>Line 215 of \<^verbatim>\<open>_forward_to_peers\<close>: \<^verbatim>\<open>f"{p.get('ip')}:{p.get('port')}"\<close>.\<close>

definition record_pid :: "pyenv \<Rightarrow> pydict \<Rightarrow> string" where
  "record_pid env p =
     py_str env (get_default p ''ip'' JNull) @ '':'' @ py_str env (get_default p ''port'' JNull)"

text \<open>\<^verbatim>\<open>CHANNELS.get(channel, {'peers': set(), 'messages': []})\<close>.\<close>

definition chan_get :: "(hkey \<times> channel) list \<Rightarrow> hkey \<Rightarrow> channel" where
  "chan_get chans k =
     (case map_of chans k of None \<Rightarrow> \<lparr>ch_peers = {}, ch_messages = []\<rparr> | Some c \<Rightarrow> c)"

text \<open>\<^verbatim>\<open>[PEERS[p] for p in ch['peers'] if p in PEERS]\<close>.\<close>

definition member_records :: "pyenv \<Rightarrow> (string \<times> pydict) list \<Rightarrow> channel \<Rightarrow> pydict list" where
  "member_records env peers ch = List.map_filter (map_of peers) (set_iter env (ch_peers ch))"

text \<open>
  The \<open>try\<close> block of lines 218-231 for one target: \<open>int(p.get('port'))\<close> comes before
  the connection. The result is \<open>None\<close> when the block ran to its end, \<open>Some (str e)\<close>
  when it raised.
\<close>

definition attempt :: "pyenv \<Rightarrow> json \<Rightarrow> pydict \<Rightarrow> contact list \<Rightarrow> string option \<times> contact list" where
  "attempt env entry p conns =
     (case py_int env (get_default p ''port'' JNull) of
        Inl e \<Rightarrow> (Some (exn_text env e), conns)
      | Inr n \<Rightarrow>
          (net env conns (get_default p ''ip'' JNull, n, entry),
           conns @ [(get_default p ''ip'' JNull, n, entry)]))"

definition result_entry :: "string \<Rightarrow> string option \<Rightarrow> json" where
  "result_entry pid outcome =
     (case outcome of
        None \<Rightarrow> JObj [(''peer'', JStr pid), (''ok'', JBool True)]
      | Some msg \<Rightarrow> JObj [(''peer'', JStr pid), (''ok'', JBool False), (''error'', JStr msg)])"

text \<open>\<^verbatim>\<open>if exclude_pid and pid == exclude_pid: continue\<close>.\<close>

definition excluded :: "string option \<Rightarrow> string \<Rightarrow> bool" where
  "excluded exclude_pid pid =
     (case exclude_pid of None \<Rightarrow> False | Some x \<Rightarrow> x \<noteq> [] \<and> pid = x)"

text \<open>
  \<^verbatim>\<open>_forward_to_peers(peers, entry, exclude_pid)\<close>: the loop of lines 214-241, with the
  list \<open>results\<close> and the connections made so far as accumulators.
\<close>

fun forward_to_peers ::
  "pyenv \<Rightarrow> pydict list \<Rightarrow> json \<Rightarrow> string option \<Rightarrow> contact list \<Rightarrow> json list
     \<Rightarrow> json list \<times> contact list" where
  "forward_to_peers env [] entry exclude_pid conns results = (results, conns)"
| "forward_to_peers env (p # ps) entry exclude_pid conns results =
     (if excluded exclude_pid (record_pid env p)
      then forward_to_peers env ps entry exclude_pid conns results
      else (let (outcome, conns') = attempt env entry p conns
            in forward_to_peers env ps entry exclude_pid conns'
                 (results @ [result_entry (record_pid env p) outcome])))"



definition invalid_json :: "string \<Rightarrow> response" where
  "invalid_json detail =
     build_response 400 (JObj [(''error'', JStr ''invalid json''), (''detail'', JStr detail)])"

text \<open>
  \<^verbatim>\<open>POST /submit-info\<close> (lines 85-94). \<open>Inl e\<close>: the exception \<open>e\<close> leaves the branch
  for the \<open>except\<close> of line 176. \<open>{**obj, 'ts': time.time()}\<close> needs a dict.
\<close>

definition submit_info :: "pyenv \<Rightarrow> rat \<Rightarrow> payload \<Rightarrow> tracker \<Rightarrow> pyexn + response \<times> tracker" where
  "submit_info env now_ts c st =
     (case c of
        Malformed raw detail \<Rightarrow> Inr (invalid_json detail, st)
      | Parsed obj \<Rightarrow>
          (case peer_id env obj of
             Inl e \<Rightarrow> Inl e
           | Inr pid \<Rightarrow>
               (case obj of
                  JObj d \<Rightarrow>
                    (let st' = st\<lparr>PEERS := AList.update pid (AList.update ''ts'' (JFloat now_ts) d)
                                                (PEERS st)\<rparr>
                     in Inr (build_response 200
                               (JObj [(''status'', JStr ''ok''),
                                      (''peers_count'', JInt (int (length (PEERS st'))))]),
                             st'))
                | _ \<Rightarrow> Inl TypeError)))"

text \<open>
  \<^verbatim>\<open>GET /get-list\<close> (lines 96-105); \<open>ch\<close> is \<^verbatim>\<open>qs.get('channel',[None])[0]\<close>. The
  state is only read.
\<close>

definition get_list :: "pyenv \<Rightarrow> string option \<Rightarrow> tracker \<Rightarrow> response" where
  "get_list env ch st =
     (case ch of
        None \<Rightarrow> build_response 200 (JObj [(''peers'', JArr (map (JObj \<circ> snd) (PEERS st)))])
      | Some name \<Rightarrow>
          if name \<noteq> [] then
            build_response 200
              (JObj [(''channel'', JStr name),
                     (''peers'', JArr (map JObj (member_records env (PEERS st)
                                                   (chan_get (CHANNELS st) (KStr name))))),
                     (''messages'', JArr (ch_messages (chan_get (CHANNELS st) (KStr name))))])
          else build_response 200 (JObj [(''peers'', JArr (map (JObj \<circ> snd) (PEERS st)))]))"

text \<open>
  \<^verbatim>\<open>POST /add-list\<close> (lines 107-121): \<open>setdefault\<close> creates the channel, \<open>add\<close> puts the
  peer id into its member set.
\<close>

definition add_list :: "pyenv \<Rightarrow> payload \<Rightarrow> tracker \<Rightarrow> pyexn + response \<times> tracker" where
  "add_list env c st =
     (case c of
        Malformed raw detail \<Rightarrow> Inr (invalid_json detail, st)
      | Parsed obj \<Rightarrow>
          (case dict_get obj ''channel'' of
             Inl e \<Rightarrow> Inl e
           | Inr ch \<Rightarrow>
               (case dict_get obj ''peer'' of
                  Inl e \<Rightarrow> Inl e
                | Inr peer \<Rightarrow>
                    if \<not> truthy ch \<or> \<not> truthy peer then
                      Inr (build_response 400
                             (JObj [(''error'', JStr ''missing channel or peer'')]), st)
                    else
                      (case peer_id env peer of
                         Inl e \<Rightarrow> Inl e
                       | Inr pid \<Rightarrow>
                           (case py_hash ch of
                              Inl e \<Rightarrow> Inl e
                            | Inr k \<Rightarrow>
                                Inr (build_response 200 (JObj [(''status'', JStr ''ok'')]),
                                     st\<lparr>CHANNELS :=
                                          AList.update k
                                            ((chan_get (CHANNELS st) k)
                                               \<lparr>ch_peers := insert pid (ch_peers (chan_get (CHANNELS st) k))\<rparr>)
                                            (CHANNELS st)\<rparr>))))))"

text \<open>
  \<^verbatim>\<open>POST /broadcast-peer\<close> (lines 123-156). The fan-out never raises on a list of
  dicts, so the \<open>except\<close> of line 153 has no branch here.
\<close>

definition broadcast_peer ::
  "pyenv \<Rightarrow> rat \<Rightarrow> payload \<Rightarrow> tracker \<Rightarrow> contact list
     \<Rightarrow> pyexn + response \<times> tracker \<times> contact list" where
  "broadcast_peer env now_ts c st conns =
     (case c of
        Malformed raw detail \<Rightarrow> Inr (invalid_json detail, st, conns)
      | Parsed obj \<Rightarrow>
          (case dict_get obj ''from'' of
             Inl e \<Rightarrow> Inl e
           | Inr from_peer \<Rightarrow>
               (case dict_get obj ''channel'' of
                  Inl e \<Rightarrow> Inl e
                | Inr ch \<Rightarrow>
                    (case dict_get obj ''message'' of
                       Inl e \<Rightarrow> Inl e
                     | Inr message \<Rightarrow>
                         if \<not> truthy from_peer \<or> \<not> truthy ch \<or> message = JNull then
                           Inr (build_response 400 (JObj [(''error'', JStr ''missing fields'')]),
                                st, conns)
                         else
                           (case peer_id env from_peer of
                              Inl e \<Rightarrow> Inl e
                            | Inr pid \<Rightarrow>
                                if ch = JStr ''private'' then
                                  Inr (build_response 200
                                         (JObj [(''status'', JStr ''ok''), (''peers'', JArr []),
                                                (''forwarded'', JArr [])]),
                                       st, conns)
                                else
                                  (case py_hash ch of
                                     Inl e \<Rightarrow> Inl e
                                   | Inr k \<Rightarrow>
                                       (let entry = JObj [(''from'', from_peer), (''message'', message),
                                                          (''ts'', JFloat now_ts)];
                                            old = chan_get (CHANNELS st) k;
                                            new = \<lparr>ch_peers = insert pid (ch_peers old),
                                                   ch_messages = ch_messages old @ [entry]\<rparr>;
                                            st' = st\<lparr>CHANNELS := AList.update k new (CHANNELS st)\<rparr>;
                                            peers = member_records env (PEERS st) new;
                                            (forward_results, conns') =
                                               forward_to_peers env peers entry (Some pid) conns []
                                        in Inr (build_response 200
                                                  (JObj [(''status'', JStr ''ok''),
                                                         (''peers'', JArr (map JObj peers)),
                                                         (''forwarded'', JArr forward_results)]),
                                                st', conns'))))))))"

text \<open>\<^verbatim>\<open>POST /connect-peer\<close> (lines 158-172).\<close>

definition connect_peer :: "pyenv \<Rightarrow> payload \<Rightarrow> tracker \<Rightarrow> pyexn + response" where
  "connect_peer env c st =
     (case c of
        Malformed raw detail \<Rightarrow> Inr (invalid_json detail)
      | Parsed obj \<Rightarrow>
          (case dict_get obj ''to'' of
             Inl e \<Rightarrow> Inl e
           | Inr to \<Rightarrow>
               if \<not> truthy to then Inr (build_response 400 (JObj [(''error'', JStr ''missing to'')]))
               else
                 (case peer_id env to of
                    Inl e \<Rightarrow> Inl e
                  | Inr pid \<Rightarrow>
                      (case map_of (PEERS st) pid of
                         None \<Rightarrow> Inr (build_response 404 (JObj [(''error'', JStr ''peer not found'')]))
                       | Some info \<Rightarrow>
                           if info = [] then
                             Inr (build_response 404 (JObj [(''error'', JStr ''peer not found'')]))
                           else Inr (build_response 200 (JObj [(''peer'', JObj info)]))))))"

text \<open>
  The dispatch of \<^verbatim>\<open>handle_http\<close> (lines 84-175) on a parsed request, and its
  \<open>except\<close> (lines 176-186): every exception becomes a 500 whose body carries \<open>str(e)\<close>.
  Each branch raises, if it does, before it writes to \<open>PEERS\<close> or \<open>CHANNELS\<close> and
  before any connection is made, so the state at the \<open>except\<close> is the one at entry.
\<close>

definition dispatch ::
  "pyenv \<Rightarrow> rat \<Rightarrow> request \<Rightarrow> tracker \<Rightarrow> contact list
     \<Rightarrow> pyexn + response \<times> tracker \<times> contact list" where
  "dispatch env now_ts req st conns =
     (if meth req = ''POST'' \<and> route req = ''/submit-info'' then
        (case submit_info env now_ts (content req) st of
           Inl e \<Rightarrow> Inl e
         | Inr (r, st') \<Rightarrow> Inr (r, st', conns))
      else if meth req = ''GET'' \<and> route req = ''/get-list'' then
        Inr (get_list env (qs_channel req) st, st, conns)
      else if meth req = ''POST'' \<and> route req = ''/add-list'' then
        (case add_list env (content req) st of
           Inl e \<Rightarrow> Inl e
         | Inr (r, st') \<Rightarrow> Inr (r, st', conns))
      else if meth req = ''POST'' \<and> route req = ''/broadcast-peer'' then
        broadcast_peer env now_ts (content req) st conns
      else if meth req = ''POST'' \<and> route req = ''/connect-peer'' then
        (case connect_peer env (content req) st of
           Inl e \<Rightarrow> Inl e
         | Inr r \<Rightarrow> Inr (r, st, conns))
      else Inr (build_response 404 (JObj [(''error'', JStr ''not found'')]), st, conns))"

definition handle_http ::
  "pyenv \<Rightarrow> rat \<Rightarrow> request \<Rightarrow> tracker \<Rightarrow> contact list \<Rightarrow> response \<times> tracker \<times> contact list" where
  "handle_http env now_ts req st conns =
     (if meth req = ''OPTIONS'' then (build_response 200 (JObj []), st, conns)
      else (case dispatch env now_ts req st conns of
              Inl e \<Rightarrow> (build_response 500 (JObj [(''error'', JStr (exn_text env e))]), st, conns)
            | Inr out \<Rightarrow> out))"

text \<open>
  \<^verbatim>\<open>Peer.register_to_tracker\<close> and \<^verbatim>\<open>Peer.add_to_channel\<close> (peer.py, lines 200-236),
  as the tracker sees them: when the connection can be made (\<open>up\<close>), the peer posts
  its record to \<open>/submit-info\<close> and then posts itself to \<open>/add-list\<close> for the channel
  \<open>general\<close>; the replies are read and dropped. The two clock readings are the
  tracker's.
\<close>

definition self_record :: "peer_self \<Rightarrow> string \<Rightarrow> json" where
  "self_record self reg_ip =
     JObj [(''ip'', JStr reg_ip), (''port'', JInt (self_port self)), (''name'', JStr (self_name self))]"

definition add_to_channel ::
  "pyenv \<Rightarrow> rat \<Rightarrow> bool \<Rightarrow> peer_self \<Rightarrow> string \<Rightarrow> string \<Rightarrow> tracker \<Rightarrow> tracker" where
  "add_to_channel env now_ts up self channel_name reg_ip st =
     (if up then
        fst (snd (handle_http env now_ts
               \<lparr>meth = ''POST'', route = ''/add-list'', qs_channel = None,
                content = Parsed (JObj [(''channel'', JStr channel_name),
                                        (''peer'', self_record self reg_ip)])\<rparr> st []))
      else st)"

definition register_to_tracker ::
  "pyenv \<Rightarrow> rat \<Rightarrow> rat \<Rightarrow> bool \<Rightarrow> bool \<Rightarrow> peer_self \<Rightarrow> string \<Rightarrow> tracker \<Rightarrow> tracker" where
  "register_to_tracker env t1 t2 up1 up2 self reg_ip st =
     (if up1 then
        add_to_channel env t2 up2 self ''general'' reg_ip
          (fst (snd (handle_http env t1
             \<lparr>meth = ''POST'', route = ''/submit-info'', qs_channel = None,
              content = Parsed (self_record self reg_ip)\<rparr> st [])))
      else st)"

text \<open>What the theorems below assume of the runtime, and a runtime to run them on.\<close>

text \<open>Every record of \<open>PEERS\<close> is stored under the id that line 215 computes from it.\<close>

definition peers_ok :: "pyenv \<Rightarrow> tracker \<Rightarrow> bool" where
  "peers_ok env st = list_all (\<lambda>(k, r). record_pid env r = k) (PEERS st)"


text \<open>
  A runtime for the examples: sets are iterated in the order of \<open>order\<close>, the hosts in
  \<open>down\<close> refuse the connection, \<open>int\<close> of anything but a number raises.
\<close>

definition run_env :: "string list \<Rightarrow> json list \<Rightarrow> pyenv" where
  "run_env order down =
     \<lparr>py_repr = (\<lambda>v. ''<repr>''),
      int_conv = (\<lambda>v. Inl ValueError),
      exn_text = (\<lambda>e. case e of KeyError k \<Rightarrow> [CHR 0x27] @ k @ [CHR 0x27] | _ \<Rightarrow> ''<error>''),
      set_iter = (\<lambda>S. filter (\<lambda>x. x \<in> S) order),
      net = (\<lambda>conns (host, n, b). if host \<in> set down then Some ''Connection refused'' else None)\<rparr>"

text \<open>
  Inputs for the examples: peer A at 10.0.0.1:10001, peer B at 10.0.0.2:10002, a
  record without a \<open>name\<close> at 10.0.0.3:10003, and A's message \<open>hi\<close> to the channel
  \<open>team\<close>.
\<close>

definition peer_a :: pydict where
  "peer_a = [(''ip'', JStr ''10.0.0.1''), (''port'', JInt 10001), (''name'', JStr ''A'')]"

definition peer_b :: pydict where
  "peer_b = [(''ip'', JStr ''10.0.0.2''), (''port'', JInt 10002), (''name'', JStr ''B'')]"

definition peer_nameless :: pydict where
  "peer_nameless = [(''ip'', JStr ''10.0.0.3''), (''port'', JInt 10003)]"

definition hi_team :: pydict where
  "hi_team = [(''from'', JObj peer_a), (''channel'', JStr ''team''), (''message'', JStr ''hi'')]"

text \<open>
  A's private note, and a tracker on which A and B are registered and members of the
  channel \<open>team\<close>.
\<close>

definition private_note :: pydict where
  "private_note = [(''from'', JObj peer_a), (''channel'', JStr ''private''), (''message'', JStr ''psst'')]"

definition team_tracker :: tracker where
  "team_tracker =
     \<lparr>PEERS = [(''10.0.0.1:10001'', peer_a @ [(''ts'', JFloat 1)]),
               (''10.0.0.2:10002'', peer_b @ [(''ts'', JFloat 2)])],
      CHANNELS = [(KStr ''team'',
                   \<lparr>ch_peers = {''10.0.0.1:10001'', ''10.0.0.2:10002''}, ch_messages = []\<rparr>)]\<rparr>"

text \<open>Requests as \<^verbatim>\<open>handle_http\<close> parses them: a \<open>POST\<close> with a body, a \<open>GET\<close> of the member list.\<close>

definition post :: "string \<Rightarrow> payload \<Rightarrow> request" where
  "post path c = \<lparr>meth = ''POST'', route = path, qs_channel = None, content = c\<rparr>"

definition get_channel :: "string \<Rightarrow> request" where
  "get_channel name =
     \<lparr>meth = ''GET'', route = ''/get-list'', qs_channel = Some name, content = Parsed (JObj [])\<rparr>"

section \<open>The peer agent: deduplication and the inbox\<close>

lemma resp_distinct: "resp_ok \<noteq> resp_duplicate"
  by (simp add: resp_ok_def resp_duplicate_def build_response_def)

lemma receive_dup:
  "loaded c = JObj d \<Longrightarrow>
   is_duplicate (recent_keys st) (dedupe_key env (AList.update ''ts'' (JFloat t) d)) t \<Longrightarrow>
   receive env t c st = (resp_duplicate, st)"
  by (simp add: receive_def Let_def)

lemma receive_new:
  "loaded c = JObj d \<Longrightarrow>
   \<not> is_duplicate (recent_keys st) (dedupe_key env (AList.update ''ts'' (JFloat t) d)) t \<Longrightarrow>
   receive env t c st =
     (resp_ok,
      st\<lparr>recent_keys := prune t (AList.update (dedupe_key env (AList.update ''ts'' (JFloat t) d)) t
                                   (recent_keys st)),
         messages := messages st @ [JObj (AList.update ''ts'' (JFloat t) d)]\<rparr>)"
  by (simp add: receive_def Let_def)

lemma receive_other:
  "\<forall>d. loaded c \<noteq> JObj d \<Longrightarrow> receive env t c st = (resp_ok, st)"
  by (cases "loaded c") (simp_all add: receive_def)

lemma get_default_update_other:
  "k \<noteq> k' \<Longrightarrow> get_default (AList.update k' v d) k dflt = get_default d k dflt"
  by (simp add: get_default_def update_conv')

lemma dedupe_key_ts: "dedupe_key env (AList.update ''ts'' v d) = dedupe_key env d"
  by (simp add: dedupe_key_def get_default_update_other)

lemma map_of_prune_new: "map_of (prune t (AList.update k t recent)) k = Some t"
proof -
  have "map_of (AList.update k t recent) k = Some t"
    by (simp add: update_conv')
  then have "map_of (filter (\<lambda>(k, s). \<not> s < t - 5) (AList.update k t recent)) k = Some t"
    by (rule map_of_filter_in) simp
  then show ?thesis
    using \<open>map_of (AList.update k t recent) k = Some t\<close> by (simp add: prune_def)
qed

lemma map_of_positive:
  "list_all (\<lambda>(k, t). 0 < t) xs \<Longrightarrow> map_of xs k = Some (s::rat) \<Longrightarrow> 0 < s"
  by (induction xs) (auto split: if_splits)

lemma list_all_update:
  "list_all P xs \<Longrightarrow> P (k, v) \<Longrightarrow> list_all P (AList.update k v xs)"
  by (induction xs) auto

lemma stamps_ok_receive:
  assumes "stamps_ok st" and "0 < t"
  shows "stamps_ok (snd (receive env t c st))"
proof (cases "\<exists>d. loaded c = JObj d")
  case False
  then show ?thesis using assms by (simp add: receive_other)
next
  case True
  then obtain d where d: "loaded c = JObj d" by blast
  let ?k = "dedupe_key env (AList.update ''ts'' (JFloat t) d)"
  show ?thesis
  proof (cases "is_duplicate (recent_keys st) ?k t")
    case True
    then show ?thesis using assms d by (simp add: receive_dup)
  next
    case False
    have "list_all (\<lambda>(k, t). 0 < t) (AList.update ?k t (recent_keys st))"
      using assms by (intro list_all_update) (simp_all add: stamps_ok_def)
    then have "list_all (\<lambda>(k, t). 0 < t) (prune t (AList.update ?k t (recent_keys st)))"
      by (simp add: prune_def list_all_iff)
    then show ?thesis using False d by (simp add: receive_new stamps_ok_def)
  qed
qed

lemma stamps_ok_new: "stamps_ok new_peer"
  by (simp add: stamps_ok_def new_peer_def)

lemma stamps_ok_peer_inbox: "stamps_ok st \<Longrightarrow> stamps_ok (snd (peer_inbox st))"
  by (simp add: stamps_ok_def peer_inbox_def)

lemma is_duplicate_iff:
  "stamps_ok st \<Longrightarrow>
   is_duplicate (recent_keys st) k t \<longleftrightarrow> (\<exists>seen. map_of (recent_keys st) k = Some seen \<and> t - seen < 2)"
  by (auto simp: is_duplicate_def stamps_ok_def split: option.splits dest: map_of_positive)

lemma accepted_state:
  assumes "loaded c = JObj d" and "fst (receive env t c st) = resp_ok"
  shows "map_of (recent_keys (snd (receive env t c st))) (dedupe_key env d) = Some t"
    and "messages (snd (receive env t c st)) = messages st @ [JObj (AList.update ''ts'' (JFloat t) d)]"
proof -
  have "\<not> is_duplicate (recent_keys st) (dedupe_key env (AList.update ''ts'' (JFloat t) d)) t"
    using assms receive_dup [of c d st env t] resp_distinct by auto
  then have r: "receive env t c st =
     (resp_ok,
      st\<lparr>recent_keys := prune t (AList.update (dedupe_key env d) t (recent_keys st)),
         messages := messages st @ [JObj (AList.update ''ts'' (JFloat t) d)]\<rparr>)"
    using assms(1) receive_new [of c d st env t] by (simp add: dedupe_key_ts)
  show "map_of (recent_keys (snd (receive env t c st))) (dedupe_key env d) = Some t"
    by (simp add: r map_of_prune_new)
  show "messages (snd (receive env t c st)) = messages st @ [JObj (AList.update ''ts'' (JFloat t) d)]"
    by (simp add: r)
qed

lemma within_window:
  assumes "loaded c = JObj d" and "map_of (recent_keys st) (dedupe_key env d) = Some t0"
    and "0 < t0" and "t - t0 < 2"
  shows "receive env t c st = (resp_duplicate, st)"
proof -
  have "is_duplicate (recent_keys st) (dedupe_key env (AList.update ''ts'' (JFloat t) d)) t"
    using assms by (simp add: dedupe_key_ts is_duplicate_def)
  then show ?thesis by (rule receive_dup [OF assms(1)])
qed

lemma after_window:
  assumes "loaded c = JObj d" and "map_of (recent_keys st) (dedupe_key env d) = Some t0"
    and "2 \<le> t - t0"
  shows "fst (receive env t c st) = resp_ok"
proof -
  have "\<not> is_duplicate (recent_keys st) (dedupe_key env (AList.update ''ts'' (JFloat t) d)) t"
    using assms by (simp add: dedupe_key_ts is_duplicate_def)
  then show ?thesis using assms(1) by (simp add: receive_new)
qed

lemma stream_within_window:
  assumes "loaded c = JObj d" and "map_of (recent_keys st) (dedupe_key env d) = Some t0"
    and "0 < t0" and "\<forall>t\<in>set ts. t - t0 < 2"
  shows "receive_all env c ts st = (replicate (length ts) resp_duplicate, st)"
  using assms(4)
proof (induction ts)
  case Nil
  then show ?case by simp
next
  case (Cons t ts)
  have "t - t0 < 2" using Cons.prems by simp
  then have "receive env t c st = (resp_duplicate, st)"
    by (rule within_window [OF assms(1-3)])
  then show ?case using Cons by simp
qed

lemma key_hi_team: "dedupe_key env hi_team = ''10.0.0.1|10001|team|hi''"
  by (simp add: dedupe_key_def hi_team_def peer_a_def get_default_def py_or_def str_int_def
      str_nat.simps)

text \<open>
  One delivery of a body that is a JSON object or does not parse (\<open>loaded c\<close> is a
  dict), on a peer whose stored stamps are clock readings after the epoch: if the
  dedupe key has an entry younger than 2 seconds, the answer is \<open>duplicate_ignored\<close>
  and the state is unchanged; otherwise the answer is \<open>ok\<close>, the key is recorded with
  the receipt time and the stamped message is appended to the inbox. A body accepted
  at \<open>t\<close> is ignored at \<open>t2\<close> within 2 seconds of \<open>t\<close> and accepted again at \<open>t3\<close>, 2
  seconds or more after \<open>t\<close>.
\<close>

lemma dedupe_step:
  assumes "loaded c = JObj d" and "stamps_ok st"
  shows "(if \<exists>seen. map_of (recent_keys st) (dedupe_key env d) = Some seen \<and> t - seen < 2
          then receive env t c st = (resp_duplicate, st)
          else fst (receive env t c st) = resp_ok
             \<and> map_of (recent_keys (snd (receive env t c st))) (dedupe_key env d) = Some t
             \<and> messages (snd (receive env t c st))
                 = messages st @ [JObj (AList.update ''ts'' (JFloat t) d)])
       \<and> (0 < t \<and> fst (receive env t c st) = resp_ok \<and> t2 - t < 2 \<and> 2 \<le> t3 - t \<longrightarrow>
            fst (receive_all env c [t, t2, t3] st) = [resp_ok, resp_duplicate, resp_ok])"
proof (intro conjI impI)
  let ?k = "dedupe_key env d"
  have dup: "is_duplicate (recent_keys st) (dedupe_key env (AList.update ''ts'' (JFloat t) d)) t
      \<longleftrightarrow> (\<exists>seen. map_of (recent_keys st) ?k = Some seen \<and> t - seen < 2)"
    using assms(2) by (simp add: dedupe_key_ts is_duplicate_iff)
  show "if \<exists>seen. map_of (recent_keys st) ?k = Some seen \<and> t - seen < 2
        then receive env t c st = (resp_duplicate, st)
        else fst (receive env t c st) = resp_ok
           \<and> map_of (recent_keys (snd (receive env t c st))) ?k = Some t
           \<and> messages (snd (receive env t c st))
               = messages st @ [JObj (AList.update ''ts'' (JFloat t) d)]"
  proof (cases "\<exists>seen. map_of (recent_keys st) ?k = Some seen \<and> t - seen < 2")
    case True
    then have "receive env t c st = (resp_duplicate, st)"
      using dup assms(1) receive_dup [of c d st env t] by simp
    then show ?thesis unfolding if_P [OF True] .
  next
    case False
    then have "fst (receive env t c st) = resp_ok"
      using dup assms(1) receive_new [of c d st env t] by simp
    then have "fst (receive env t c st) = resp_ok
           \<and> map_of (recent_keys (snd (receive env t c st))) ?k = Some t
           \<and> messages (snd (receive env t c st))
               = messages st @ [JObj (AList.update ''ts'' (JFloat t) d)]"
      using accepted_state [OF assms(1)] by simp
    then show ?thesis unfolding if_not_P [OF False] .
  qed
next
  assume a: "0 < t \<and> fst (receive env t c st) = resp_ok \<and> t2 - t < 2 \<and> 2 \<le> t3 - t"
  let ?st1 = "snd (receive env t c st)"
  have k: "map_of (recent_keys ?st1) (dedupe_key env d) = Some t"
    using a accepted_state(1) [OF assms(1)] by simp
  have second: "receive env t2 c ?st1 = (resp_duplicate, ?st1)"
    using a by (intro within_window [OF assms(1) k]) simp_all
  have third: "fst (receive env t3 c ?st1) = resp_ok"
    using a by (intro after_window [OF assms(1) k]) simp_all
  show "fst (receive_all env c [t, t2, t3] st) = [resp_ok, resp_duplicate, resp_ok]"
    using a second third by (simp add: split_beta Let_def)
qed

lemma dedupe_step_example:
  "loaded (Parsed (JObj hi_team)) = JObj hi_team \<and> stamps_ok new_peer
   \<and> fst (receive (run_env [] []) 100 (Parsed (JObj hi_team)) new_peer) = resp_ok
   \<and> map_of (recent_keys (snd (receive (run_env [] []) 100 (Parsed (JObj hi_team)) new_peer)))
        ''10.0.0.1|10001|team|hi'' = Some 100
   \<and> fst (receive_all (run_env [] []) (Parsed (JObj hi_team)) [100, 101, 102] new_peer)
       = [resp_ok, resp_duplicate, resp_ok]"
proof -
  have h1: "loaded (Parsed (JObj hi_team)) = JObj hi_team"
    by (simp add: loaded_def)
  have h2: "stamps_ok new_peer"
    by (simp add: stamps_ok_def new_peer_def)
  have fresh: "\<not> (\<exists>seen. map_of (recent_keys new_peer) (dedupe_key (run_env [] []) hi_team) = Some seen
                  \<and> 100 - seen < 2)"
    by (simp add: new_peer_def)
  have a: "fst (receive (run_env [] []) 100 (Parsed (JObj hi_team)) new_peer) = resp_ok
     \<and> map_of (recent_keys (snd (receive (run_env [] []) 100 (Parsed (JObj hi_team)) new_peer)))
          (dedupe_key (run_env [] []) hi_team) = Some 100"
    using dedupe_step [OF h1 h2, of "run_env [] []" 100 101 102] fresh by simp
  then have "fst (receive_all (run_env [] []) (Parsed (JObj hi_team)) [100, 101, 102] new_peer)
       = [resp_ok, resp_duplicate, resp_ok]"
    using dedupe_step [OF h1 h2, of "run_env [] []" 100 101 102] by simp
  then show ?thesis using h1 h2 a by (simp add: key_hi_team)
qed

text \<open>
  The two kinds of body, spelled out. An object is stored with its \<open>ts\<close>; a body that
  does not parse is wrapped as \<open>{'raw': content}\<close>, keyed \<open>|0|general|content\<close>, and
  stored the same way.
\<close>

lemma loaded_parsed: "loaded (Parsed v) = v"
  by (simp add: loaded_def)

lemma loaded_malformed: "loaded (Malformed raw detail) = JObj [(''raw'', JStr raw)]"
  by (simp add: loaded_def)

lemma key_unparsable: "dedupe_key env [(''raw'', JStr raw)] = ''|0|general|'' @ raw"
  by (simp add: dedupe_key_def get_default_def py_or_def str_int_def str_nat.simps)

lemma receive_object:
  assumes "stamps_ok st"
  shows "if \<exists>seen. map_of (recent_keys st) (dedupe_key env d) = Some seen \<and> t - seen < 2
         then receive env t (Parsed (JObj d)) st = (resp_duplicate, st)
         else fst (receive env t (Parsed (JObj d)) st) = resp_ok
            \<and> map_of (recent_keys (snd (receive env t (Parsed (JObj d)) st)))
                 (dedupe_key env d) = Some t
            \<and> messages (snd (receive env t (Parsed (JObj d)) st))
                = messages st @ [JObj (AList.update ''ts'' (JFloat t) d)]"
  by (rule dedupe_step [OF loaded_parsed [of "JObj d"] assms, of env t t t, THEN conjunct1])

lemma receive_unparsable:
  assumes "stamps_ok st"
  shows "if \<exists>seen. map_of (recent_keys st) (''|0|general|'' @ raw) = Some seen \<and> t - seen < 2
         then receive env t (Malformed raw detail) st = (resp_duplicate, st)
         else fst (receive env t (Malformed raw detail) st) = resp_ok
            \<and> map_of (recent_keys (snd (receive env t (Malformed raw detail) st)))
                 (''|0|general|'' @ raw) = Some t
            \<and> messages (snd (receive env t (Malformed raw detail) st))
                = messages st @ [JObj [(''raw'', JStr raw), (''ts'', JFloat t)]]"
proof -
  have upd: "AList.update ''ts'' (JFloat t) [(''raw'', JStr raw)]
      = [(''raw'', JStr raw), (''ts'', JFloat t)]"
    by simp
  show ?thesis
    by (rule dedupe_step [OF loaded_malformed [of raw detail] assms, of env t t t,
          THEN conjunct1, unfolded key_unparsable upd])
qed

lemma unparsable_twice:
  "fst (receive_all (run_env [] []) (Malformed ''hello'' ''Expecting value'') [100, 101, 102]
          new_peer)
     = [resp_ok, resp_duplicate, resp_ok]"
  using dedupe_step [OF loaded_malformed [of "''hello''" "''Expecting value''"] stamps_ok_new,
      of "run_env [] []" 100 101 102]
  by (simp add: key_unparsable new_peer_def)

text \<open>
  The window with other traffic in between. While the clock is less than 2 seconds
  past the acceptance, no delivery of any body removes or restamps the key (the prune
  of lines 129-133 only drops stamps older than 5 seconds), so the body is still
  ignored. Deliveries with other keys, at any time, leave the key absent or with the
  stamp of the acceptance, so 2 seconds or more after it the body is accepted again.
\<close>

lemma map_of_prune_keep:
  "map_of xs k = Some s \<Longrightarrow> \<not> s < u - 5 \<Longrightarrow> map_of (prune u xs) k = Some s"
proof -
  assume a: "map_of xs k = Some s" "\<not> s < u - 5"
  then have "map_of (filter (\<lambda>(k, t). \<not> t < u - 5) xs) k = Some s"
    by (intro map_of_filter_in) simp_all
  then show ?thesis using a by (simp add: prune_def)
qed

lemma key_kept:
  assumes "map_of (recent_keys st) k = Some t0" and "0 < t0" and "u - t0 < 2"
  shows "map_of (recent_keys (snd (receive env u c' st))) k = Some t0"
proof (cases "\<exists>d'. loaded c' = JObj d'")
  case False
  then show ?thesis using assms by (simp add: receive_other)
next
  case True
  then obtain d' where d': "loaded c' = JObj d'" by blast
  let ?k' = "dedupe_key env (AList.update ''ts'' (JFloat u) d')"
  show ?thesis
  proof (cases "is_duplicate (recent_keys st) ?k' u")
    case True
    then show ?thesis using assms d' by (simp add: receive_dup)
  next
    case False
    then have ne: "?k' \<noteq> k"
      using assms by (auto simp: is_duplicate_def)
    then have "map_of (AList.update ?k' u (recent_keys st)) k = Some t0"
      using assms(1) by (simp add: update_conv')
    moreover have "\<not> t0 < u - 5" using assms(3) by simp
    ultimately have "map_of (prune u (AList.update ?k' u (recent_keys st))) k = Some t0"
      by (rule map_of_prune_keep)
    then show ?thesis using False d' by (simp add: receive_new)
  qed
qed

lemma key_kept_run:
  assumes "0 < t0" and "\<forall>(u, c')\<in>set es. u - t0 < 2"
    and "map_of (recent_keys st) k = Some t0"
  shows "map_of (recent_keys (snd (deliver_all env es st))) k = Some t0"
  using assms(2,3)
proof (induction es arbitrary: st)
  case Nil
  then show ?case by simp
next
  case (Cons e es)
  obtain u c' where e: "e = (u, c')" by (cases e)
  have "u - t0 < 2" using Cons.prems(1) e by simp
  then have "map_of (recent_keys (snd (receive env u c' st))) k = Some t0"
    using Cons.prems(2) assms(1) by (intro key_kept) simp_all
  then have "map_of (recent_keys (snd (deliver_all env es (snd (receive env u c' st))))) k = Some t0"
    using Cons.prems(1) by (intro Cons.IH) simp_all
  then show ?case using e by (simp add: split_beta)
qed

lemma map_of_filter_distinct:
  "distinct (map fst xs) \<Longrightarrow>
   map_of (filter (\<lambda>(k, v). P v) xs) k
     = (case map_of xs k of None \<Rightarrow> None | Some v \<Rightarrow> if P v then Some v else None)"
proof (induction xs)
  case Nil
  then show ?case by simp
next
  case (Cons x xs)
  obtain k' v' where x: "x = (k', v')" by (cases x)
  have "k' \<notin> fst ` set xs" using Cons.prems x by simp
  then have "map_of xs k' = None" by (simp add: map_of_eq_None_iff)
  then show ?case using Cons x by (auto split: option.splits)
qed

lemma distinct_prune: "distinct (map fst xs) \<Longrightarrow> distinct (map fst (prune u xs))"
  by (simp add: prune_def distinct_map_filter)

lemma distinct_keys_receive:
  assumes "distinct (map fst (recent_keys st))"
  shows "distinct (map fst (recent_keys (snd (receive env u c st))))"
proof (cases "\<exists>d. loaded c = JObj d")
  case False
  then show ?thesis using assms by (simp add: receive_other)
next
  case True
  then obtain d where d: "loaded c = JObj d" by blast
  show ?thesis
    using assms d
    by (cases "is_duplicate (recent_keys st) (dedupe_key env (AList.update ''ts'' (JFloat u) d)) u")
       (simp_all add: receive_dup receive_new distinct_prune distinct_update)
qed

lemma key_not_restamped:
  assumes "distinct (map fst (recent_keys st))"
    and "map_of (recent_keys st) k = None \<or> map_of (recent_keys st) k = Some t0"
    and "\<forall>d'. loaded c' = JObj d' \<longrightarrow> dedupe_key env d' \<noteq> k"
  shows "map_of (recent_keys (snd (receive env u c' st))) k = None
       \<or> map_of (recent_keys (snd (receive env u c' st))) k = Some t0"
proof (cases "\<exists>d'. loaded c' = JObj d'")
  case False
  then show ?thesis using assms by (simp add: receive_other)
next
  case True
  then obtain d' where d': "loaded c' = JObj d'" by blast
  let ?k' = "dedupe_key env (AList.update ''ts'' (JFloat u) d')"
  have ne: "?k' \<noteq> k" using assms(3) d' by (simp add: dedupe_key_ts)
  show ?thesis
  proof (cases "is_duplicate (recent_keys st) ?k' u")
    case True
    then show ?thesis using assms d' by (simp add: receive_dup)
  next
    case False
    have m: "map_of (AList.update ?k' u (recent_keys st)) k = map_of (recent_keys st) k"
      using ne by (simp add: update_conv')
    have dd: "distinct (map fst (AList.update ?k' u (recent_keys st)))"
      using assms(1) by (simp add: distinct_update)
    have "map_of (prune u (AList.update ?k' u (recent_keys st))) k = None
        \<or> map_of (prune u (AList.update ?k' u (recent_keys st))) k = Some t0"
      using assms(2) m
      by (auto simp: prune_def map_of_filter_distinct [OF dd] split: option.splits)
    then show ?thesis using False d' by (simp add: receive_new)
  qed
qed

lemma key_not_restamped_run:
  assumes "\<forall>(u, c')\<in>set es. \<forall>d'. loaded c' = JObj d' \<longrightarrow> dedupe_key env d' \<noteq> k"
    and "distinct (map fst (recent_keys st))"
    and "map_of (recent_keys st) k = None \<or> map_of (recent_keys st) k = Some t0"
  shows "map_of (recent_keys (snd (deliver_all env es st))) k = None
       \<or> map_of (recent_keys (snd (deliver_all env es st))) k = Some t0"
  using assms
proof (induction es arbitrary: st)
  case Nil
  then show ?case by simp
next
  case (Cons e es)
  obtain u c' where e: "e = (u, c')" by (cases e)
  let ?st' = "snd (receive env u c' st)"
  have other: "\<forall>d'. loaded c' = JObj d' \<longrightarrow> dedupe_key env d' \<noteq> k"
    using Cons.prems(1) e by simp
  have 1: "distinct (map fst (recent_keys ?st'))"
    using Cons.prems(2) by (rule distinct_keys_receive)
  have 2: "map_of (recent_keys ?st') k = None \<or> map_of (recent_keys ?st') k = Some t0"
    using Cons.prems(2,3) other by (rule key_not_restamped)
  have "map_of (recent_keys (snd (deliver_all env es ?st'))) k = None
       \<or> map_of (recent_keys (snd (deliver_all env es ?st'))) k = Some t0"
    using Cons.prems(1) 1 2 by (intro Cons.IH) simp_all
  then show ?case using e by (simp add: split_beta)
qed

lemma window_with_traffic:
  assumes "loaded c = JObj d" and "0 < t0" and "fst (receive env t0 c st) = resp_ok"
    and "\<forall>(u, c')\<in>set es. u - t0 < 2" and "t - t0 < 2"
  shows "receive env t c (snd (deliver_all env es (snd (receive env t0 c st))))
       = (resp_duplicate, snd (deliver_all env es (snd (receive env t0 c st))))"
proof -
  have "map_of (recent_keys (snd (receive env t0 c st))) (dedupe_key env d) = Some t0"
    using assms(1,3) by (rule accepted_state(1))
  then have "map_of (recent_keys (snd (deliver_all env es (snd (receive env t0 c st)))))
               (dedupe_key env d) = Some t0"
    by (rule key_kept_run [OF assms(2,4)])
  then show ?thesis
    using assms(2,5) by (intro within_window [OF assms(1)])
qed

lemma after_window_with_traffic:
  assumes "loaded c = JObj d" and "fst (receive env t0 c st) = resp_ok"
    and "distinct (map fst (recent_keys st))"
    and "\<forall>(u, c')\<in>set es. \<forall>d'. loaded c' = JObj d' \<longrightarrow> dedupe_key env d' \<noteq> dedupe_key env d"
    and "2 \<le> t - t0"
  shows "fst (receive env t c (snd (deliver_all env es (snd (receive env t0 c st))))) = resp_ok"
proof -
  let ?st1 = "snd (receive env t0 c st)"
  let ?st2 = "snd (deliver_all env es ?st1)"
  have "map_of (recent_keys ?st1) (dedupe_key env d) = Some t0"
    using assms(1,2) by (rule accepted_state(1))
  moreover have "distinct (map fst (recent_keys ?st1))"
    using assms(3) by (rule distinct_keys_receive)
  ultimately have "map_of (recent_keys ?st2) (dedupe_key env d) = None
       \<or> map_of (recent_keys ?st2) (dedupe_key env d) = Some t0"
    using assms(4) by (intro key_not_restamped_run) simp_all
  then have "\<not> is_duplicate (recent_keys ?st2)
                 (dedupe_key env (AList.update ''ts'' (JFloat t) d)) t"
    using assms(5) by (auto simp: is_duplicate_def dedupe_key_ts)
  then show ?thesis using assms(1) by (simp add: receive_new)
qed

text \<open>
  Claim C1. The claim is about every inbound payload; the handler keeps it for bodies
  that are objects or do not parse (the lemmas above), and breaks it for a body that
  parses to anything else. On the body \<open>[]\<close>, \<open>obj['ts'] = now_ts\<close> (line 104) raises
  \<open>TypeError\<close>, the \<open>except\<close> of line 144 prints it, and line 147 answers \<open>ok\<close>: the
  key has no entry, the answer is \<open>ok\<close>, and yet no key is recorded and nothing is
  appended to the inbox.
\<close>

theorem receive_drops_non_object:
  "fst (receive (run_env [] []) 100 (Parsed (JArr [])) new_peer) = resp_ok
   \<and> messages (snd (receive (run_env [] []) 100 (Parsed (JArr [])) new_peer)) = []
   \<and> recent_keys (snd (receive (run_env [] []) 100 (Parsed (JArr [])) new_peer)) = []"
  by (simp add: receive_def loaded_def new_peer_def)

text \<open>
  Claim C10. A delivery answered \<open>duplicate_ignored\<close> leaves the whole peer state as
  it was: nothing is appended and the stamp of the key is not refreshed. So the window
  is anchored at the acceptance: after a body is accepted at \<open>t0\<close>, any run of
  deliveries of it at times less than 2 seconds after \<open>t0\<close> is ignored and changes
  nothing, the key still carries \<open>t0\<close>, and a delivery 2 seconds or more after \<open>t0\<close>
  is accepted.
\<close>

theorem duplicate_keeps_state:
  "(fst (receive env t c st) = resp_duplicate \<longrightarrow> snd (receive env t c st) = st)
   \<and> (loaded c = JObj d \<and> 0 < t0 \<and> fst (receive env t0 c st) = resp_ok
        \<and> (\<forall>u\<in>set ts. u - t0 < 2) \<and> 2 \<le> t' - t0 \<longrightarrow>
      receive_all env c ts (snd (receive env t0 c st))
        = (replicate (length ts) resp_duplicate, snd (receive env t0 c st))
      \<and> map_of (recent_keys (snd (receive env t0 c st))) (dedupe_key env d) = Some t0
      \<and> fst (receive env t' c (snd (receive env t0 c st))) = resp_ok)"
proof (intro conjI impI)
  assume "fst (receive env t c st) = resp_duplicate"
  then show "snd (receive env t c st) = st"
    using resp_distinct
    by (cases "loaded c") (auto simp: receive_def Let_def split: if_splits)
next
  assume a: "loaded c = JObj d \<and> 0 < t0 \<and> fst (receive env t0 c st) = resp_ok
        \<and> (\<forall>u\<in>set ts. u - t0 < 2) \<and> 2 \<le> t' - t0"
  let ?st1 = "snd (receive env t0 c st)"
  have k: "map_of (recent_keys ?st1) (dedupe_key env d) = Some t0"
    using a accepted_state(1) by simp
  have d: "loaded c = JObj d" using a by simp
  show "receive_all env c ts ?st1 = (replicate (length ts) resp_duplicate, ?st1)"
    using a by (intro stream_within_window [OF d k]) simp_all
  show "map_of (recent_keys ?st1) (dedupe_key env d) = Some t0" by (rule k)
  show "fst (receive env t' c ?st1) = resp_ok"
    using a by (intro after_window [OF d k]) simp_all
qed

theorem duplicate_keeps_state_witness:
  "loaded (Parsed (JObj hi_team)) = JObj hi_team
   \<and> fst (receive (run_env [] []) 100 (Parsed (JObj hi_team)) new_peer) = resp_ok
   \<and> receive_all (run_env [] []) (Parsed (JObj hi_team)) [100.5, 101, 101.9]
        (snd (receive (run_env [] []) 100 (Parsed (JObj hi_team)) new_peer))
      = ([resp_duplicate, resp_duplicate, resp_duplicate],
         snd (receive (run_env [] []) 100 (Parsed (JObj hi_team)) new_peer))
   \<and> fst (receive (run_env [] []) 102 (Parsed (JObj hi_team))
        (snd (receive (run_env [] []) 100 (Parsed (JObj hi_team)) new_peer))) = resp_ok"
proof -
  have h1: "loaded (Parsed (JObj hi_team)) = JObj hi_team"
    by (simp add: loaded_def)
  have h2: "fst (receive (run_env [] []) 100 (Parsed (JObj hi_team)) new_peer) = resp_ok"
    by (simp add: receive_def loaded_def Let_def is_duplicate_def new_peer_def)
  have h3: "\<forall>u\<in>set [100.5, 101, 101.9 :: rat]. u - 100 < 2"
    by simp
  show ?thesis
    using duplicate_keeps_state [of "run_env [] []" 100 "Parsed (JObj hi_team)" new_peer hi_team
        100 "[100.5, 101, 101.9]" 102] h1 h2 h3
    by simp
qed



section \<open>The tracker: registration, member lists and the private channel\<close>

lemma get_default_Some: "map_of d k = Some v \<Longrightarrow> get_default d k dflt = v"
  by (simp add: get_default_def)

lemma peer_id_obj:
  "map_of f ''ip'' = Some a \<Longrightarrow> map_of f ''port'' = Some b \<Longrightarrow>
   peer_id env (JObj f) = Inr (py_str env a @ '':'' @ py_str env b)"
  by (simp add: peer_id_def getitem_def)

lemma truthy_obj: "map_of f k = Some v \<Longrightarrow> truthy (JObj f)"
  by (cases f) auto

lemma submit_info_obj:
  assumes "map_of d ''ip'' = Some a" and "map_of d ''port'' = Some b"
  shows "handle_http env t (post ''/submit-info'' (Parsed (JObj d))) st conns =
     (build_response 200
        (JObj [(''status'', JStr ''ok''),
               (''peers_count'',
                JInt (int (length (AList.update (py_str env a @ '':'' @ py_str env b)
                                     (AList.update ''ts'' (JFloat t) d) (PEERS st)))))]),
      st\<lparr>PEERS := AList.update (py_str env a @ '':'' @ py_str env b)
                     (AList.update ''ts'' (JFloat t) d) (PEERS st)\<rparr>,
      conns)"
  using assms
  by (simp add: handle_http_def dispatch_def post_def submit_info_def peer_id_obj Let_def)

lemma length_update_present:
  "k \<in> fst ` set al \<Longrightarrow> length (AList.update k v al) = length al"
  by (induction al) auto

lemma filter_absent: "k \<notin> fst ` set al \<Longrightarrow> filter (\<lambda>(k', v). k' = k) al = []"
  by (induction al) auto

lemma count_update:
  "distinct (map fst al) \<Longrightarrow> length (filter (\<lambda>(k', v). k' = k) (AList.update k v al)) = 1"
  by (induction al) (auto simp: filter_absent)

lemma add_list_obj:
  assumes "map_of f ''ip'' = Some a" and "map_of f ''port'' = Some b" and "name \<noteq> []"
  shows "handle_http env t
           (post ''/add-list'' (Parsed (JObj [(''channel'', JStr name), (''peer'', JObj f)]))) st conns =
     (build_response 200 (JObj [(''status'', JStr ''ok'')]),
      st\<lparr>CHANNELS :=
           AList.update (KStr name)
             ((chan_get (CHANNELS st) (KStr name))
                \<lparr>ch_peers := insert (py_str env a @ '':'' @ py_str env b)
                               (ch_peers (chan_get (CHANNELS st) (KStr name)))\<rparr>)
             (CHANNELS st)\<rparr>,
      conns)"
proof -
  have "truthy (JObj f)" using assms(1) by (rule truthy_obj)
  then show ?thesis
    using assms
    by (simp add: handle_http_def dispatch_def post_def add_list_def get_default_def peer_id_obj
        del: truthy.simps(7))
qed

lemma chan_get_update: "chan_get (AList.update k c chans) k = c"
  by (simp add: chan_get_def update_conv')

text \<open>
  Claim C2. A broadcast request with \<open>from\<close> (an object with \<open>ip\<close> and \<open>port\<close>),
  \<open>channel = "private"\<close> and a \<open>message\<close> that is not null is answered 200 with
  \<open>status ok\<close>, an empty \<open>peers\<close> list and an empty \<open>forwarded\<close> list; the peer table
  and the channel table are unchanged and no connection is made. The state and the
  connections are unchanged for every body whose channel is \<open>private\<close>, well-formed
  or not.
\<close>

theorem private_broadcast:
  "(map_of d ''from'' = Some (JObj f) \<and> map_of f ''ip'' = Some a \<and> map_of f ''port'' = Some b
      \<and> map_of d ''channel'' = Some (JStr ''private'')
      \<and> map_of d ''message'' = Some m \<and> m \<noteq> JNull \<longrightarrow>
    handle_http env t (post ''/broadcast-peer'' (Parsed (JObj d))) st conns
      = (build_response 200
           (JObj [(''status'', JStr ''ok''), (''peers'', JArr []), (''forwarded'', JArr [])]),
         st, conns))
   \<and> (dict_get obj ''channel'' = Inr (JStr ''private'') \<longrightarrow>
        snd (handle_http env t (post ''/broadcast-peer'' (Parsed obj)) st conns) = (st, conns))"
proof (intro conjI impI)
  assume a: "map_of d ''from'' = Some (JObj f) \<and> map_of f ''ip'' = Some a \<and> map_of f ''port'' = Some b
      \<and> map_of d ''channel'' = Some (JStr ''private'')
      \<and> map_of d ''message'' = Some m \<and> m \<noteq> JNull"
  then have "truthy (JObj f)" by (auto intro: truthy_obj)
  moreover have "truthy (JStr ''private'')" by simp
  ultimately show "handle_http env t (post ''/broadcast-peer'' (Parsed (JObj d))) st conns
      = (build_response 200
           (JObj [(''status'', JStr ''ok''), (''peers'', JArr []), (''forwarded'', JArr [])]),
         st, conns)"
    using a
    by (simp add: handle_http_def dispatch_def post_def broadcast_peer_def get_default_Some
        peer_id_obj del: truthy.simps)
next
  assume "dict_get obj ''channel'' = Inr (JStr ''private'')"
  then show "snd (handle_http env t (post ''/broadcast-peer'' (Parsed obj)) st conns) = (st, conns)"
    by (simp add: handle_http_def dispatch_def post_def broadcast_peer_def
        split: sum.splits)
qed

theorem private_broadcast_witness:
  "handle_http (run_env [] []) 100 (post ''/broadcast-peer'' (Parsed (JObj private_note)))
      team_tracker []
     = (build_response 200
          (JObj [(''status'', JStr ''ok''), (''peers'', JArr []), (''forwarded'', JArr [])]),
        team_tracker, [])"
  using private_broadcast [of private_note peer_a "JStr ''10.0.0.1''" "JInt 10001" "JStr ''psst''"
      "run_env [] []" 100 team_tracker "[]" "JObj private_note"]
  by (simp add: private_note_def peer_a_def)

text \<open>
  Claim C9. \<open>GET /get-list?channel=NAME\<close> for a channel that does not exist answers
  \<open>{channel: NAME, peers: [], messages: []}\<close> and leaves the tracker as it was (an
  empty set is iterated as the empty list). No request other than \<open>POST /add-list\<close>
  and \<open>POST /broadcast-peer\<close> changes the channel table.
\<close>

theorem get_list_absent_channel:
  "(name \<noteq> [] \<and> map_of (CHANNELS st) (KStr name) = None \<and> set_iter env {} = [] \<longrightarrow>
      handle_http env t (get_channel name) st conns
        = (build_response 200
             (JObj [(''channel'', JStr name), (''peers'', JArr []), (''messages'', JArr [])]),
           st, conns))
   \<and> (\<not> (meth req = ''POST'' \<and> (route req = ''/add-list'' \<or> route req = ''/broadcast-peer'')) \<longrightarrow>
        CHANNELS (fst (snd (handle_http env t req st conns))) = CHANNELS st)"
proof (intro conjI impI)
  assume "name \<noteq> [] \<and> map_of (CHANNELS st) (KStr name) = None \<and> set_iter env {} = []"
  then show "handle_http env t (get_channel name) st conns
        = (build_response 200
             (JObj [(''channel'', JStr name), (''peers'', JArr []), (''messages'', JArr [])]),
           st, conns)"
    by (simp add: handle_http_def dispatch_def get_channel_def get_list_def chan_get_def
        member_records_def)
next
  assume "\<not> (meth req = ''POST'' \<and> (route req = ''/add-list'' \<or> route req = ''/broadcast-peer''))"
  then show "CHANNELS (fst (snd (handle_http env t req st conns))) = CHANNELS st"
    by (auto simp: handle_http_def dispatch_def submit_info_def Let_def
        split: sum.splits payload.splits json.splits)
qed

theorem get_list_absent_channel_witness:
  "handle_http (run_env [] []) 100 (get_channel ''lobby'') team_tracker []
     = (build_response 200
          (JObj [(''channel'', JStr ''lobby''), (''peers'', JArr []), (''messages'', JArr [])]),
        team_tracker, [])"
  using get_list_absent_channel [of "''lobby''" team_tracker "run_env [] []" 100 "[]"
      "get_channel ''lobby''"]
  by (simp add: team_tracker_def run_env_def)

text \<open>
  Claim C6. Registering the same body (with \<open>ip\<close> and \<open>port\<close>) twice leaves exactly
  one entry under the peer id \<open>ip:port\<close>: the second call overwrites the record (its
  \<open>ts\<close> is the second clock reading), the table has the same length after the second
  call as after the first, and both replies report that count.
\<close>

theorem register_twice:
  "map_of d ''ip'' = Some a \<and> map_of d ''port'' = Some b \<and> distinct (map fst (PEERS st)) \<longrightarrow>
   (let pid = py_str env a @ '':'' @ py_str env b;
        (r1, st1, c1) = handle_http env t1 (post ''/submit-info'' (Parsed (JObj d))) st conns;
        (r2, st2, c2) = handle_http env t2 (post ''/submit-info'' (Parsed (JObj d))) st1 c1
    in length (filter (\<lambda>(k, r). k = pid) (PEERS st2)) = 1
       \<and> map_of (PEERS st2) pid = Some (AList.update ''ts'' (JFloat t2) d)
       \<and> length (PEERS st2) = length (PEERS st1)
       \<and> CHANNELS st2 = CHANNELS st
       \<and> r1 = build_response 200
                (JObj [(''status'', JStr ''ok''), (''peers_count'', JInt (int (length (PEERS st1))))])
       \<and> r2 = build_response 200
                (JObj [(''status'', JStr ''ok''), (''peers_count'', JInt (int (length (PEERS st1))))]))"
proof
  assume a: "map_of d ''ip'' = Some a \<and> map_of d ''port'' = Some b \<and> distinct (map fst (PEERS st))"
  let ?pid = "py_str env a @ '':'' @ py_str env b"
  let ?P1 = "AList.update ?pid (AList.update ''ts'' (JFloat t1) d) (PEERS st)"
  have in1: "?pid \<in> fst ` set ?P1"
    by (simp add: dom_update)
  have d1: "distinct (map fst ?P1)"
    using a by (simp add: distinct_update)
  have len: "length (AList.update ?pid (AList.update ''ts'' (JFloat t2) d) ?P1) = length ?P1"
    using in1 by (rule length_update_present)
  have one: "length (filter (\<lambda>(k, r). k = ?pid)
                 (AList.update ?pid (AList.update ''ts'' (JFloat t2) d) ?P1)) = 1"
    using d1 by (rule count_update)
  show "let pid = py_str env a @ '':'' @ py_str env b;
        (r1, st1, c1) = handle_http env t1 (post ''/submit-info'' (Parsed (JObj d))) st conns;
        (r2, st2, c2) = handle_http env t2 (post ''/submit-info'' (Parsed (JObj d))) st1 c1
    in length (filter (\<lambda>(k, r). k = pid) (PEERS st2)) = 1
       \<and> map_of (PEERS st2) pid = Some (AList.update ''ts'' (JFloat t2) d)
       \<and> length (PEERS st2) = length (PEERS st1)
       \<and> CHANNELS st2 = CHANNELS st
       \<and> r1 = build_response 200
                (JObj [(''status'', JStr ''ok''), (''peers_count'', JInt (int (length (PEERS st1))))])
       \<and> r2 = build_response 200
                (JObj [(''status'', JStr ''ok''), (''peers_count'', JInt (int (length (PEERS st1))))])"
    using a len one by (simp add: submit_info_obj Let_def update_conv')
qed

theorem register_twice_witness:
  "PEERS (fst (snd (handle_http (run_env [] []) 6 (post ''/submit-info'' (Parsed (JObj peer_a)))
            (fst (snd (handle_http (run_env [] []) 5 (post ''/submit-info'' (Parsed (JObj peer_a)))
               team_tracker []))) [])))
     = [(''10.0.0.1:10001'', peer_a @ [(''ts'', JFloat 6)]),
        (''10.0.0.2:10002'', peer_b @ [(''ts'', JFloat 2)])]
   \<and> body (fst (handle_http (run_env [] []) 6 (post ''/submit-info'' (Parsed (JObj peer_a)))
            (fst (snd (handle_http (run_env [] []) 5 (post ''/submit-info'' (Parsed (JObj peer_a)))
               team_tracker []))) []))
     = JObj [(''status'', JStr ''ok''), (''peers_count'', JInt 2)]"
  using register_twice [of peer_a "JStr ''10.0.0.1''" "JInt 10001" team_tracker "run_env [] []" 5 "[]" 6]
  by (simp add: peer_a_def peer_b_def team_tracker_def handle_http_def dispatch_def post_def
      submit_info_def peer_id_def getitem_def str_int_def str_nat.simps build_response_def Let_def)

text \<open>
  Claim C7, as the code has it. \<open>POST /submit-info\<close> never changes the channel table:
  the tracker's registration joins no channel. The join of \<open>general\<close> is the peer
  agent's: \<^verbatim>\<open>register_to_tracker\<close> follows its registration with a \<open>POST /add-list\<close>
  for \<open>general\<close>, and once the tracker has served both, the peer id is a member of
  \<open>general\<close> and the record is in the peer table. When the registration cannot be
  sent, nothing is changed.
\<close>

theorem register_then_join:
  "CHANNELS (fst (snd (handle_http env t (post ''/submit-info'' c) st conns))) = CHANNELS st
   \<and> register_to_tracker env t1 t2 False up2 self reg_ip st = st
   \<and> (reg_ip @ '':'' @ str_int (self_port self))
        \<in> ch_peers (chan_get (CHANNELS (register_to_tracker env t1 t2 True True self reg_ip st))
                      (KStr ''general''))
   \<and> map_of (PEERS (register_to_tracker env t1 t2 True True self reg_ip st))
        (reg_ip @ '':'' @ str_int (self_port self))
       = Some [(''ip'', JStr reg_ip), (''port'', JInt (self_port self)),
               (''name'', JStr (self_name self)), (''ts'', JFloat t1)]"
proof (intro conjI)
  show "CHANNELS (fst (snd (handle_http env t (post ''/submit-info'' c) st conns))) = CHANNELS st"
    by (auto simp: handle_http_def dispatch_def post_def submit_info_def Let_def
        split: sum.splits payload.splits json.splits)
  show "register_to_tracker env t1 t2 False up2 self reg_ip st = st"
    by (simp add: register_to_tracker_def)
  let ?f = "[(''ip'', JStr reg_ip), (''port'', JInt (self_port self)), (''name'', JStr (self_name self))]"
  have ip: "map_of ?f ''ip'' = Some (JStr reg_ip)" and port: "map_of ?f ''port'' = Some (JInt (self_port self))"
    by simp_all
  show "(reg_ip @ '':'' @ str_int (self_port self))
        \<in> ch_peers (chan_get (CHANNELS (register_to_tracker env t1 t2 True True self reg_ip st))
                      (KStr ''general''))"
    using submit_info_obj [OF ip port, of env t1 st "[]"] 
    by (simp add: register_to_tracker_def add_to_channel_def self_record_def
        add_list_obj [OF ip port, unfolded post_def] post_def chan_get_update)
  show "map_of (PEERS (register_to_tracker env t1 t2 True True self reg_ip st))
        (reg_ip @ '':'' @ str_int (self_port self))
       = Some [(''ip'', JStr reg_ip), (''port'', JInt (self_port self)),
               (''name'', JStr (self_name self)), (''ts'', JFloat t1)]"
    using submit_info_obj [OF ip port, of env t1 st "[]"] 
    by (simp add: register_to_tracker_def add_to_channel_def self_record_def
        add_list_obj [OF ip port, unfolded post_def] post_def update_conv')
qed

theorem register_then_join_witness:
  "CHANNELS (register_to_tracker (run_env [] []) 5 6 True True
               \<lparr>self_ip = ''0.0.0.0'', self_port = 10001, self_name = ''A''\<rparr> ''10.0.0.1'' new_tracker)
     = [(KStr ''general'', \<lparr>ch_peers = {''10.0.0.1:10001''}, ch_messages = []\<rparr>)]
   \<and> PEERS (register_to_tracker (run_env [] []) 5 6 True True
               \<lparr>self_ip = ''0.0.0.0'', self_port = 10001, self_name = ''A''\<rparr> ''10.0.0.1'' new_tracker)
     = [(''10.0.0.1:10001'', peer_a @ [(''ts'', JFloat 5)])]"
  using register_then_join [of "run_env [] []" 5 "Parsed (JObj peer_a)" new_tracker "[]" 5 6 True
      "\<lparr>self_ip = ''0.0.0.0'', self_port = 10001, self_name = ''A''\<rparr>" "''10.0.0.1''"]
  by (simp add: register_to_tracker_def add_to_channel_def self_record_def handle_http_def
      dispatch_def submit_info_def add_list_def peer_id_def getitem_def get_default_def
      chan_get_def new_tracker_def peer_a_def str_int_def str_nat.simps build_response_def Let_def)

theorem submit_info_no_join_counterexample:
  "code (fst (handle_http (run_env [] []) 5 (post ''/submit-info'' (Parsed (JObj peer_a)))
                new_tracker [])) = 200
   \<and> PEERS (fst (snd (handle_http (run_env [] []) 5 (post ''/submit-info'' (Parsed (JObj peer_a)))
                new_tracker [])))
       = [(''10.0.0.1:10001'', peer_a @ [(''ts'', JFloat 5)])]
   \<and> ''10.0.0.1:10001''
       \<notin> ch_peers (chan_get (CHANNELS (fst (snd (handle_http (run_env [] []) 5
                       (post ''/submit-info'' (Parsed (JObj peer_a))) new_tracker []))))
                    (KStr ''general''))"
  by (simp add: handle_http_def dispatch_def post_def submit_info_def peer_id_def getitem_def
      chan_get_def new_tracker_def peer_a_def str_int_def str_nat.simps build_response_def Let_def)

text \<open>
  Claim C8, as the code has it. A registration whose body does not parse is answered
  400 with \<open>error: invalid json\<close> and the decoder's message; one whose body parses but
  has no \<open>ip\<close> or no \<open>port\<close> (or is not an object) is answered 500 with the text of
  the exception that \<^verbatim>\<open>_peer_id\<close> raised. In both cases the tracker is unchanged.
  A body without \<open>name\<close> is registered, as the evaluation after the witness shows.
\<close>

theorem submit_info_malformed:
  "handle_http env t (post ''/submit-info'' (Malformed raw detail)) st conns
      = (build_response 400 (JObj [(''error'', JStr ''invalid json''), (''detail'', JStr detail)]),
         st, conns)
   \<and> (peer_id env obj = Inl e \<longrightarrow>
        handle_http env t (post ''/submit-info'' (Parsed obj)) st conns
          = (build_response 500 (JObj [(''error'', JStr (exn_text env e))]), st, conns))
   \<and> (map_of d ''ip'' = None \<longrightarrow> peer_id env (JObj d) = Inl (KeyError ''ip''))
   \<and> (map_of d ''ip'' = Some a \<and> map_of d ''port'' = None \<longrightarrow>
        peer_id env (JObj d) = Inl (KeyError ''port''))
   \<and> ((\<forall>d. obj \<noteq> JObj d) \<longrightarrow> peer_id env obj = Inl TypeError)"
proof (intro conjI impI)
  show "handle_http env t (post ''/submit-info'' (Malformed raw detail)) st conns
      = (build_response 400 (JObj [(''error'', JStr ''invalid json''), (''detail'', JStr detail)]),
         st, conns)"
    by (simp add: handle_http_def dispatch_def post_def submit_info_def invalid_json_def)
next
  assume "peer_id env obj = Inl e"
  then show "handle_http env t (post ''/submit-info'' (Parsed obj)) st conns
          = (build_response 500 (JObj [(''error'', JStr (exn_text env e))]), st, conns)"
    by (simp add: handle_http_def dispatch_def post_def submit_info_def)
next
  assume "map_of d ''ip'' = None"
  then show "peer_id env (JObj d) = Inl (KeyError ''ip'')"
    by (simp add: peer_id_def getitem_def)
next
  assume "map_of d ''ip'' = Some a \<and> map_of d ''port'' = None"
  then show "peer_id env (JObj d) = Inl (KeyError ''port'')"
    by (simp add: peer_id_def getitem_def)
next
  assume "\<forall>d. obj \<noteq> JObj d"
  then show "peer_id env obj = Inl TypeError"
    by (cases obj) (simp_all add: peer_id_def)
qed

theorem submit_info_malformed_witness:
  "handle_http (run_env [] []) 5
      (post ''/submit-info'' (Parsed (JObj [(''port'', JInt 10003), (''name'', JStr ''C'')])))
      team_tracker []
     = (build_response 500 (JObj [(''error'', JStr [CHR 0x27, CHR ''i'', CHR ''p'', CHR 0x27])]),
        team_tracker, [])"
  using submit_info_malformed [of "run_env [] []" 5 "[]" "[]" team_tracker "[]"
      "JObj [(''port'', JInt 10003), (''name'', JStr ''C'')]" "KeyError ''ip''"
      "[(''port'', JInt 10003), (''name'', JStr ''C'')]" JNull]
  by (simp add: run_env_def)

theorem submit_info_nameless_counterexample:
  "code (fst (handle_http (run_env [] []) 5 (post ''/submit-info'' (Parsed (JObj peer_nameless)))
                new_tracker [])) = 200
   \<and> PEERS (fst (snd (handle_http (run_env [] []) 5 (post ''/submit-info'' (Parsed (JObj peer_nameless)))
                new_tracker [])))
       = [(''10.0.0.3:10003'', peer_nameless @ [(''ts'', JFloat 5)])]
   \<and> code (fst (handle_http (run_env [] []) 5
                (post ''/submit-info'' (Parsed (JObj [(''port'', JInt 10003), (''name'', JStr ''C'')])))
                new_tracker [])) = 500"
  by (simp add: handle_http_def dispatch_def post_def submit_info_def peer_id_def getitem_def
      new_tracker_def peer_nameless_def str_int_def str_nat.simps build_response_def Let_def)

section \<open>Fan-out: the tracker's relay and the peer's own broadcast\<close>

text \<open>
  \<^verbatim>\<open>_forward_to_peers\<close> returns one entry per target that is not excluded, in the
  order of the targets, whatever each attempt did; it connects once to each such target
  whose port converts, in the same order.
\<close>

lemma forward_results:
  "\<exists>outs. length outs = length (filter (\<lambda>p. \<not> excluded ex (record_pid env p)) ps)
     \<and> fst (forward_to_peers env ps entry ex conns results)
         = results @ map2 result_entry
                       (map (record_pid env) (filter (\<lambda>p. \<not> excluded ex (record_pid env p)) ps)) outs"
proof (induction ps arbitrary: conns results)
  case Nil
  then show ?case by simp
next
  case (Cons p ps)
  show ?case
  proof (cases "excluded ex (record_pid env p)")
    case True
    then show ?thesis using Cons.IH [of conns results] by simp
  next
    case False
    obtain out conns' where a: "attempt env entry p conns = (out, conns')"
      by (cases "attempt env entry p conns")
    obtain outs where
      outs: "length outs = length (filter (\<lambda>p. \<not> excluded ex (record_pid env p)) ps)"
        "fst (forward_to_peers env ps entry ex conns' (results @ [result_entry (record_pid env p) out]))
           = (results @ [result_entry (record_pid env p) out])
             @ map2 result_entry
                 (map (record_pid env) (filter (\<lambda>p. \<not> excluded ex (record_pid env p)) ps)) outs"
      using Cons.IH [of conns' "results @ [result_entry (record_pid env p) out]"] by blast
    show ?thesis
      by (rule exI [of _ "out # outs"]) (use False a outs in simp)
  qed
qed

lemma forward_contacts:
  "snd (forward_to_peers env ps entry ex conns results)
     = conns @ List.map_filter
         (\<lambda>p. case py_int env (get_default p ''port'' JNull) of
                 Inl e \<Rightarrow> None
               | Inr n \<Rightarrow> Some (get_default p ''ip'' JNull, n, entry))
         (filter (\<lambda>p. \<not> excluded ex (record_pid env p)) ps)"
proof (induction ps arbitrary: conns results)
  case Nil
  then show ?case by simp
next
  case (Cons p ps)
  show ?case
  proof (cases "excluded ex (record_pid env p)")
    case True
    then show ?thesis using Cons.IH [of conns results] by simp
  next
    case False
    then show ?thesis
      by (cases "py_int env (get_default p ''port'' JNull)")
         (simp_all add: attempt_def Cons.IH)
  qed
qed



lemma str_ports:
  "str_int 10001 = ''10001''" "str_int 10002 = ''10002''" "str_int 10003 = ''10003''"
  by (simp_all add: str_int_def str_nat.simps)

lemma forward_reaches_all:
  "forward_to_peers (run_env [] [JStr ''10.0.0.3''])
      [peer_a @ [(''ts'', JFloat 1)], peer_nameless @ [(''ts'', JFloat 2)],
       peer_b @ [(''ts'', JFloat 3)]]
      (JStr ''hi'') (Some ''10.0.0.1:10001'') [] []
     = ([JObj [(''peer'', JStr ''10.0.0.3:10003''), (''ok'', JBool False),
               (''error'', JStr ''Connection refused'')],
         JObj [(''peer'', JStr ''10.0.0.2:10002''), (''ok'', JBool True)]],
        [(JStr ''10.0.0.3'', 10003, JStr ''hi''), (JStr ''10.0.0.2'', 10002, JStr ''hi'')])"
  by (simp add: record_pid_def excluded_def attempt_def result_entry_def get_default_def
      run_env_def peer_a_def peer_b_def peer_nameless_def str_ports)




lemma record_pid_stamped:
  "peer_id env (JObj d) = Inr pid \<Longrightarrow> record_pid env (AList.update ''ts'' v d) = pid"
  by (auto simp: peer_id_def getitem_def record_pid_def get_default_def update_conv'
      split: option.splits)

lemma add_list_PEERS: "add_list env c st = Inr (r, st') \<Longrightarrow> PEERS st' = PEERS st"
  by (auto simp: add_list_def split: payload.splits sum.splits if_splits)

lemma broadcast_peer_PEERS:
  "broadcast_peer env t c st conns = Inr (r, st', conns') \<Longrightarrow> PEERS st' = PEERS st"
  by (auto simp: broadcast_peer_def Let_def split: payload.splits sum.splits if_splits prod.splits)

lemma submit_info_PEERS:
  "submit_info env t c st = Inr (r, st') \<Longrightarrow>
   PEERS st' = PEERS st
   \<or> (\<exists>pid d. peer_id env (JObj d) = Inr pid
         \<and> PEERS st' = AList.update pid (AList.update ''ts'' (JFloat t) d) (PEERS st))"
  by (fastforce simp: submit_info_def Let_def split: payload.splits sum.splits json.splits)

lemma handle_http_PEERS:
  "PEERS (fst (snd (handle_http env t req st conns))) = PEERS st
   \<or> (\<exists>pid d. peer_id env (JObj d) = Inr pid
         \<and> PEERS (fst (snd (handle_http env t req st conns)))
             = AList.update pid (AList.update ''ts'' (JFloat t) d) (PEERS st))"
proof (cases "dispatch env t req st conns")
  case (Inl e)
  then show ?thesis by (simp add: handle_http_def)
next
  case (Inr out)
  obtain r st' conns' where out: "out = (r, st', conns')" by (cases out)
  have "PEERS st' = PEERS st
     \<or> (\<exists>pid d. peer_id env (JObj d) = Inr pid
          \<and> PEERS st' = AList.update pid (AList.update ''ts'' (JFloat t) d) (PEERS st))"
    using Inr out
    by (auto simp: dispatch_def split: if_splits sum.splits
        dest: add_list_PEERS broadcast_peer_PEERS submit_info_PEERS)
  then show ?thesis using Inr out by (auto simp: handle_http_def)
qed

lemma peers_ok_handle_http:
  assumes "peers_ok env st"
  shows "peers_ok env (fst (snd (handle_http env t req st conns)))"
  using handle_http_PEERS [of env t req st conns] assms
  by (auto simp: peers_ok_def record_pid_stamped intro!: list_all_update)

lemma distinct_handle_http:
  assumes "distinct (map fst (PEERS st))"
  shows "distinct (map fst (PEERS (fst (snd (handle_http env t req st conns)))))"
  using handle_http_PEERS [of env t req st conns] assms
  by (auto simp: distinct_update)

lemma peers_ok_new: "peers_ok env new_tracker"
  by (simp add: peers_ok_def new_tracker_def)




text \<open>
  \<^verbatim>\<open>Peer.broadcast\<close> on targets that all carry \<open>name\<close>, \<open>ip\<close> and \<open>port\<close>: no
  exception leaves the loop, and each target whose port converts is connected to
  once, in order.
\<close>

lemma send_each_complete:
  "list_all (\<lambda>p. report_failure p = None) ps \<Longrightarrow> fst (send_each env b ps conns) = None"
  by (induction ps arbitrary: conns) (auto simp: split_beta)

lemma send_each_contacts:
  "list_all (\<lambda>p. report_failure p = None) ps \<Longrightarrow>
   snd (send_each env b ps conns)
     = conns @ List.map_filter
         (\<lambda>p. case py_int env (get_default p ''port'' JNull) of
                 Inl e \<Rightarrow> None
               | Inr n \<Rightarrow> Some (get_default p ''ip'' JNull, n, b)) ps"
proof (induction ps arbitrary: conns)
  case Nil
  then show ?case by simp
next
  case (Cons p ps)
  then have rf: "report_failure p = None" and rest: "list_all (\<lambda>p. report_failure p = None) ps"
    by simp_all
  from rf obtain h pv nm where
    k: "map_of p ''ip'' = Some h" "map_of p ''port'' = Some pv" "map_of p ''name'' = Some nm"
    by (auto simp: report_failure_def getitem_def split: option.splits)
  show ?case
    using k rf Cons.IH [OF rest]
    by (cases "py_int env pv"; cases "net env conns (h, projr (py_int env pv), b)")
       (simp_all add: try_send_def getitem_def get_default_def)
qed

text \<open>
  Claim C3. The tracker's fan-out isolates every failure (\<open>forward_results\<close>,
  \<open>forward_contacts\<close>, \<open>forward_reaches_all\<close>). \<^verbatim>\<open>Peer.broadcast\<close> does so only
  for records that carry \<open>name\<close>, \<open>ip\<close> and \<open>port\<close>: each of its \<open>except\<close> clauses
  prints \<open>p['name']\<close>, so on a target registered without a \<open>name\<close> the handler
  itself raises \<open>KeyError\<close>, which leaves \<open>broadcast\<close> before the remaining targets
  are tried. Here A broadcasts to the records of A, of a peer without a name and of B:
  one connection is made, B is never tried.
\<close>

theorem broadcast_aborts_on_nameless:
  "broadcast (run_env [] []) \<lparr>self_ip = ''10.0.0.1'', self_port = 10001, self_name = ''A''\<rparr>
      [peer_a @ [(''ts'', JFloat 1)], peer_nameless @ [(''ts'', JFloat 2)],
       peer_b @ [(''ts'', JFloat 3)]]
      (JStr ''hi'') JNull []
     = (Some (KeyError ''name''),
        [(JStr ''10.0.0.3'', 10003,
          JObj [(''from'', JObj peer_a), (''channel'', JNull), (''message'', JStr ''hi'')])])"
  by (simp add: broadcast_def try_send_def report_failure_def getitem_def get_default_def
      run_env_def peer_a_def peer_b_def peer_nameless_def)


end
